theory Spec2Isabelle
  imports Main "HOL-Library.Word"
begin

section \<open>The ingressgroup controller skeleton\<close>

text \<open>
  A shallow embedding of \<^verbatim>\<open>main.go\<close>, of the API types of
  \<^verbatim>\<open>pkg/apis/ingressgroup/v1/types.go\<close> and of the group/version registration
  (\<^verbatim>\<open>SchemeGroupVersion\<close>). Go structs are records, the values of an
  \<^verbatim>\<open>interface{}\<close> are a datatype of dynamic types, a Go \<^verbatim>\<open>error\<close> that may be
  \<^verbatim>\<open>nil\<close> is an \<open>error option\<close>, and everything the program does to the outside
  (the log, standard error, the cluster, the informer factory) is a field of an explicit
  world that every function takes and returns.
\<close>

subsection \<open>Errors\<close>

text \<open>
  Modelled from the spec: the error values of the vendored package
  \<^verbatim>\<open>k8s.io/apimachinery/pkg/api/errors\<close>, whose source is not under src/. The spec
  (sections 4.2 and 6) gives the cluster API the outcomes
  \<^verbatim>\<open>success | AlreadyExists | Error\<close>; every error carries the message that
  \<^verbatim>\<open>err.Error()\<close> returns and \<^verbatim>\<open>%v\<close> prints.
\<close>

datatype error = AlreadyExists string | OtherError string

fun Error :: "error \<Rightarrow> string" where
  "Error (AlreadyExists msg) = msg"
| "Error (OtherError msg) = msg"

fun IsAlreadyExists :: "error \<Rightarrow> bool" where
  "IsAlreadyExists (AlreadyExists msg) = True"
| "IsAlreadyExists (OtherError msg) = False"

subsection \<open>API types: types.go and the group/version registration\<close>

text \<open>
  \<^verbatim>\<open>metav1.TypeMeta\<close> and \<^verbatim>\<open>metav1.ObjectMeta\<close> are vendored types that are not
  under src/; the records keep the fields this program sets or reads.
\<close>

record TypeMeta =
  Kind :: string
  APIVersion :: string

record ObjectMeta =
  Name :: string
  Namespace :: string

record ServiceItem =
  Name :: string
  Namespace :: string

record IngressGroupSpec =
  Services :: "ServiceItem list"

record IngressGroup =
  TypeMeta :: TypeMeta
  ObjectMeta :: ObjectMeta
  Spec :: IngressGroupSpec

record GroupVersion =
  Group :: string
  Version :: string

text \<open>
  \<^verbatim>\<open>SchemeGroupVersion\<close>. The constant \<^verbatim>\<open>ingressgroup.GroupName\<close> is declared in a
  file of the repository that is not under src/, so it is a parameter.
\<close>

definition SchemeGroupVersion :: "string \<Rightarrow> GroupVersion" where
  "SchemeGroupVersion GroupName = \<lparr>Group = GroupName, Version = ''v1''\<rparr>"

subsection \<open>The custom resource definition (apiextensions v1beta1)\<close>

text \<open>
  The vendored v1beta1 types, with the fields that \<^verbatim>\<open>CreateIngressGroupCRD\<close> sets. A Go
  map with string keys is an association list; a pointer that may be \<^verbatim>\<open>nil\<close> is an
  option; a field the struct literal leaves out has Go's zero value (the empty string,
  the empty list, \<open>None\<close>).
\<close>

datatype ResourceScope = ClusterScoped | NamespaceScoped

record CustomResourceDefinitionVersion =
  Name :: string
  Served :: bool
  Storage :: bool

record CustomResourceDefinitionNames =
  Plural :: string
  Singular :: string
  ShortNames :: "string list"
  Kind :: string
  ListKind :: string
  Categories :: "string list"

datatype JSONSchemaProps =
  JSONSchemaProps
    (Type: string)
    (Items: "JSONSchemaPropsOrArray option")
    (Required: "string list")
    (Properties: "(string \<times> JSONSchemaProps) list")
and JSONSchemaPropsOrArray =
  JSONSchemaPropsOrArray
    (Schema: "JSONSchemaProps option")
    (JSONSchemas: "JSONSchemaProps list")

record CustomResourceValidation =
  OpenAPIV3Schema :: "JSONSchemaProps option"

record CustomResourceDefinitionSpec =
  Group :: string
  Versions :: "CustomResourceDefinitionVersion list"
  Scope :: ResourceScope
  Names :: CustomResourceDefinitionNames
  Validation :: "CustomResourceValidation option"

record CustomResourceDefinition =
  ObjectMeta :: ObjectMeta
  Spec :: CustomResourceDefinitionSpec

text \<open>
  The extensions clientset, as far as the program uses it: the
  \<^verbatim>\<open>Create\<close> call of \<^verbatim>\<open>ApiextensionsV1beta1().CustomResourceDefinitions()\<close>. It
  takes the definition and the state \<open>'c\<close> of the cluster behind the client, and returns
  the error (if any) and the cluster's new state.
\<close>

record 'c ExtensionsClientset =
  Create :: "CustomResourceDefinition \<Rightarrow> 'c \<Rightarrow> error option \<times> 'c"

text \<open>The local variable \<^verbatim>\<open>crd\<close> of \<^verbatim>\<open>CreateIngressGroupCRD\<close> (lines 137-189).\<close>

definition crd :: "string \<Rightarrow> CustomResourceDefinition" where
  "crd GroupName =
    \<lparr>CustomResourceDefinition.ObjectMeta =
       \<lparr>ObjectMeta.Name = ''ingressgroups.'' @ GroupVersion.Group (SchemeGroupVersion GroupName),
        ObjectMeta.Namespace = []\<rparr>,
     CustomResourceDefinition.Spec =
       \<lparr>CustomResourceDefinitionSpec.Group = GroupVersion.Group (SchemeGroupVersion GroupName),
        Versions =
          [\<lparr>CustomResourceDefinitionVersion.Name = Version (SchemeGroupVersion GroupName),
            Served = True,
            Storage = True\<rparr>],
        Scope = NamespaceScoped,
        Names =
          \<lparr>Plural = ''ingressgroups'',
           Singular = ''ingressgroup'',
           ShortNames = [''ig''],
           CustomResourceDefinitionNames.Kind = ''IngressGroup'',
           ListKind = ''IngressGroupList'',
           Categories = [''all'']\<rparr>,
        Validation = Some
          \<lparr>OpenAPIV3Schema = Some
            (JSONSchemaProps [] None []
              [(''spec'',
                JSONSchemaProps [] None []
                  [(''services'',
                    JSONSchemaProps ''array''
                      (Some (JSONSchemaPropsOrArray
                        (Some (JSONSchemaProps ''object'' None [''name'', ''namespace'']
                          [(''name'', JSONSchemaProps ''string'' None [] []),
                           (''namespace'', JSONSchemaProps ''string'' None [] [])]))
                        []))
                      [] [])])])\<rparr>\<rparr>\<rparr>"

definition CreateIngressGroupCRD ::
  "string \<Rightarrow> 'c ExtensionsClientset \<Rightarrow> 'c \<Rightarrow> error option \<times> 'c" where
  "CreateIngressGroupCRD GroupName extensionCRClient c =
    (let (err, c') = Create extensionCRClient (crd GroupName) c in (err, c'))"

subsection \<open>The cluster API behind the client\<close>

text \<open>
  Modelled from the spec: the cluster API's \<^verbatim>\<open>CreateSchema\<close>, whose server-side code
  is not under src/. Section 6 gives it the outcomes
  \<^verbatim>\<open>success | AlreadyExists | Error\<close>, section 7 names an unreachable cluster as an
  error, and section 8 says that registering the same schema twice yields AlreadyExists
  on the second call and stores no duplicate. The cluster keeps the list of the
  definitions it has stored; a definition is identified by its name.
\<close>

record cluster =
  reachable :: bool
  schemas :: "CustomResourceDefinition list"

definition schema_name :: "CustomResourceDefinition \<Rightarrow> string" where
  "schema_name d = ObjectMeta.Name (CustomResourceDefinition.ObjectMeta d)"

definition CreateSchema ::
  "CustomResourceDefinition \<Rightarrow> cluster \<Rightarrow> error option \<times> cluster" where
  "CreateSchema d c =
    (if \<not> reachable c then (Some (OtherError ''cluster unreachable''), c)
     else if schema_name d \<in> set (map schema_name (schemas c))
       then (Some (AlreadyExists (schema_name d @ '' already exists'')), c)
     else (None, c\<lparr>schemas := schemas c @ [d]\<rparr>))"

definition apiserver :: "cluster ExtensionsClientset" where
  "apiserver = \<lparr>Create = CreateSchema\<rparr>"

subsection \<open>JSON values and the wire shape of an IngressGroup\<close>

datatype JSON =
  JNull
| JBool bool
| JNumber int
| JString string
| JArray "JSON list"
| JObject "(string \<times> JSON) list"

text \<open>The member of an object under a key; a value that is not an object has none.\<close>

fun member_of :: "string \<Rightarrow> JSON \<Rightarrow> JSON option" where
  "member_of k (JObject fs) = map_of fs k"
| "member_of k v = None"

fun keys_of :: "JSON \<Rightarrow> string list" where
  "keys_of (JObject fs) = map fst fs"
| "keys_of v = []"

text \<open>
  What \<^verbatim>\<open>encoding/json\<close> writes for the three structs of types.go, read off their
  tags: a field goes under the name of its tag, in the order of declaration;
  \<^verbatim>\<open>omitempty\<close> leaves out a slice of length zero and never leaves out a struct; the
  embedded \<^verbatim>\<open>TypeMeta\<close>, tagged \<^verbatim>\<open>inline\<close>, contributes its fields to the object of
  the IngressGroup, where a field of the outer struct wins over an embedded field of the
  same name. The tags of the vendored \<^verbatim>\<open>TypeMeta\<close> and \<^verbatim>\<open>ObjectMeta\<close> are not under
  src/: their encodings are the parameters \<open>inlineTypeMeta\<close> and \<open>marshalObjectMeta\<close>.
\<close>

definition Marshal_ServiceItem :: "ServiceItem \<Rightarrow> JSON" where
  "Marshal_ServiceItem si =
    JObject [(''name'', JString (ServiceItem.Name si)),
             (''namespace'', JString (ServiceItem.Namespace si))]"

definition Marshal_IngressGroupSpec :: "IngressGroupSpec \<Rightarrow> JSON" where
  "Marshal_IngressGroupSpec sp =
    JObject (if Services sp = [] then []
             else [(''services'', JArray (map Marshal_ServiceItem (Services sp)))])"

definition Marshal_IngressGroup ::
  "(TypeMeta \<Rightarrow> (string \<times> JSON) list) \<Rightarrow> (ObjectMeta \<Rightarrow> JSON) \<Rightarrow> IngressGroup \<Rightarrow> JSON" where
  "Marshal_IngressGroup inlineTypeMeta marshalObjectMeta ig =
    JObject
      (filter (\<lambda>(k, v). k \<noteq> ''metadata'' \<and> k \<noteq> ''spec'')
         (inlineTypeMeta (IngressGroup.TypeMeta ig))
       @ [(''metadata'', marshalObjectMeta (IngressGroup.ObjectMeta ig)),
          (''spec'', Marshal_IngressGroupSpec (IngressGroup.Spec ig))])"

text \<open>
  Concrete encoders for the two vendored structs, used where a concrete IngressGroup is
  serialised: the fields the records keep, under the names of the Kubernetes API
  conventions, each left out when empty.
\<close>

definition inline_TypeMeta :: "TypeMeta \<Rightarrow> (string \<times> JSON) list" where
  "inline_TypeMeta tm =
    (if TypeMeta.Kind tm = [] then [] else [(''kind'', JString (TypeMeta.Kind tm))])
    @ (if APIVersion tm = [] then [] else [(''apiVersion'', JString (APIVersion tm))])"

definition Marshal_ObjectMeta :: "ObjectMeta \<Rightarrow> JSON" where
  "Marshal_ObjectMeta om =
    JObject
      ((if ObjectMeta.Name om = [] then [] else [(''name'', JString (ObjectMeta.Name om))])
       @ (if ObjectMeta.Namespace om = [] then []
          else [(''namespace'', JString (ObjectMeta.Namespace om))]))"

subsection \<open>Structural validation against the published schema\<close>

text \<open>
  Modelled from the spec: the validation function of section 4.1, which the cluster
  applies at admission and whose code is not under src/. Given a schema and a candidate
  payload it returns the list of validation errors, each with the path of the missing
  or malformed field (section 4.1: "services[2].namespace: required"); the empty list is
  success. Of a schema it reads the four fields the published schema uses: the type, the
  required keys, the properties and the items.
\<close>

datatype PathElem = Key string | Index nat

datatype ValidationError = ValidationError (path: "PathElem list") (reason: string)

fun json_type :: "JSON \<Rightarrow> string" where
  "json_type JNull = ''null''"
| "json_type (JBool b) = ''boolean''"
| "json_type (JNumber n) = ''number''"
| "json_type (JString s) = ''string''"
| "json_type (JArray xs) = ''array''"
| "json_type (JObject fs) = ''object''"

fun validate :: "JSONSchemaProps \<Rightarrow> PathElem list \<Rightarrow> JSON \<Rightarrow> ValidationError list" where
  "validate (JSONSchemaProps ty items req props) p v =
    (if ty \<noteq> [] \<and> ty \<noteq> json_type v then [ValidationError p ''type''] else [])
    @ (case v of
         JObject fs \<Rightarrow>
           map (\<lambda>r. ValidationError (p @ [Key r]) ''required'')
             (filter (\<lambda>r. map_of fs r = None) req)
           @ concat (map (\<lambda>(k, sub). case map_of fs k of
                                         None \<Rightarrow> []
                                       | Some x \<Rightarrow> validate sub (p @ [Key k]) x) props)
       | JArray xs \<Rightarrow>
           (case items of
              Some (JSONSchemaPropsOrArray (Some sch) others) \<Rightarrow>
                concat (map (\<lambda>(i, x). validate sch (p @ [Index i]) x) (enumerate 0 xs))
            | _ \<Rightarrow> [])
       | _ \<Rightarrow> [])"

definition admit :: "CustomResourceDefinition \<Rightarrow> JSON \<Rightarrow> ValidationError list" where
  "admit d v =
    (case Validation (CustomResourceDefinition.Spec d) of
       None \<Rightarrow> []
     | Some val \<Rightarrow>
         (case OpenAPIV3Schema val of
            None \<Rightarrow> []
          | Some sch \<Rightarrow> validate sch [] v))"

subsection \<open>Outcomes and the log\<close>

text \<open>
  How a call ends: it returns a value, it ends the process with an exit status
  (\<^verbatim>\<open>os.Exit\<close>, or \<^verbatim>\<open>klog.Fatal\<close>, which logs and exits with status 255), or it is
  still blocked when the observation ends.
\<close>

datatype 'a exec = Return 'a | Exit nat | Blocked

datatype severity = INFO | WARNING | FATAL

subsection \<open>Process configuration and the clients\<close>

record OperatorManagerServer =
  Master :: string
  Kubeconfig :: string

definition NewOMServer :: OperatorManagerServer where
  "NewOMServer = \<lparr>Master = [], Kubeconfig = []\<rparr>"

text \<open>
  The vendored \<^verbatim>\<open>rest.Config\<close>: the fields \<^verbatim>\<open>createClients\<close> writes, and the host as
  what \<^verbatim>\<open>BuildConfigFromFlags\<close> found. \<^verbatim>\<open>QPS\<close> is a \<^verbatim>\<open>float32\<close> in Go; the only
  value the program stores in it is 100.
\<close>

record Config =
  Host :: string
  UserAgent :: string
  QPS :: int
  Burst :: int

datatype Clientset = Clientset Config

datatype VersionedClientset = VersionedClientset Config

text \<open>
  What the program calls and the sources do not contain: the group name, the build's
  version, whether \<^verbatim>\<open>--version\<close> was requested, and the vendored constructors of the
  client configuration and of the three clientsets.
\<close>

record 'c env =
  GroupName :: string
  version_Get :: string
  versionRequested :: bool
  BuildConfigFromFlags :: "string \<Rightarrow> string \<Rightarrow> error + Config"
  AddUserAgent :: "Config \<Rightarrow> string \<Rightarrow> Config"
  clientset_NewForConfig :: "Config \<Rightarrow> error + Clientset"
  extensionsclient_NewForConfig :: "Config \<Rightarrow> error + 'c ExtensionsClientset"
  igclient_NewForConfig :: "Config \<Rightarrow> error + VersionedClientset"

subsection \<open>Event payloads and the handlers\<close>

text \<open>
  A value of type \<^verbatim>\<open>interface{}\<close> by its dynamic type: the nil interface, a
  \<^verbatim>\<open>*v1.IngressGroup\<close> (a pointer, which may itself be nil), the tombstone
  \<^verbatim>\<open>cache.DeletedFinalStateUnknown\<close> with its key and last known object, or a value of
  any other type, named by its type.
\<close>

datatype obj =
  NilInterface
| IngressGroupPtr "IngressGroup option"
| DeletedFinalStateUnknown string obj
| OtherObject string

datatype panic = TypeAssertionPanic | NilPointerDereference

text \<open>
  The two forms of the type assertion \<^verbatim>\<open>x.(*v1.IngressGroup)\<close>: the unchecked form
  panics unless the dynamic type is \<^verbatim>\<open>*v1.IngressGroup\<close>; the comma-ok form yields the
  nil pointer instead. Reading a field through a nil pointer panics.
\<close>

fun is_IngressGroupPtr :: "obj \<Rightarrow> bool" where
  "is_IngressGroupPtr (IngressGroupPtr p) = True"
| "is_IngressGroupPtr x = False"

fun assert_IngressGroup :: "obj \<Rightarrow> panic + IngressGroup option" where
  "assert_IngressGroup (IngressGroupPtr p) = Inr p"
| "assert_IngressGroup x = Inl TypeAssertionPanic"

fun assert_IngressGroup_ok :: "obj \<Rightarrow> IngressGroup option \<times> bool" where
  "assert_IngressGroup_ok (IngressGroupPtr p) = (p, True)"
| "assert_IngressGroup_ok x = (None, False)"

fun deref :: "IngressGroup option \<Rightarrow> panic + IngressGroup" where
  "deref None = Inl NilPointerDereference"
| "deref (Some g) = Inr g"

text \<open>
  \<^verbatim>\<open>cache.ResourceEventHandlerFuncs\<close>: each callback may be nil. A callback of the
  program either panics or writes one warning to the log, so it returns the panic or the
  line it logs.
\<close>

record ResourceEventHandlerFuncs =
  AddFunc :: "(obj \<Rightarrow> panic + severity \<times> string) option"
  UpdateFunc :: "(obj \<Rightarrow> obj \<Rightarrow> panic + severity \<times> string) option"
  DeleteFunc :: "(obj \<Rightarrow> panic + severity \<times> string) option"

text \<open>The three function literals of \<^verbatim>\<open>Run\<close> (lines 89-103).\<close>

definition ingGroup_AddFunc :: "obj \<Rightarrow> panic + severity \<times> string" where
  "ingGroup_AddFunc x =
    (case assert_IngressGroup x of
       Inl p \<Rightarrow> Inl p
     | Inr addIngGroup \<Rightarrow>
         (case deref addIngGroup of
            Inl p \<Rightarrow> Inl p
          | Inr g \<Rightarrow>
              Inr (WARNING,
                ''addIngGroup: '' @ ObjectMeta.Namespace (IngressGroup.ObjectMeta g)
                  @ ''/'' @ ObjectMeta.Name (IngressGroup.ObjectMeta g))))"

definition ingGroup_DeleteFunc :: "obj \<Rightarrow> panic + severity \<times> string" where
  "ingGroup_DeleteFunc x =
    (let (delIngGroup, ok) = assert_IngressGroup_ok x
     in case deref delIngGroup of
          Inl p \<Rightarrow> Inl p
        | Inr g \<Rightarrow>
            Inr (WARNING,
              ''delIngGroup: '' @ ObjectMeta.Namespace (IngressGroup.ObjectMeta g)
                @ ''/'' @ ObjectMeta.Name (IngressGroup.ObjectMeta g)))"

definition ingGroup_UpdateFunc :: "obj \<Rightarrow> obj \<Rightarrow> panic + severity \<times> string" where
  "ingGroup_UpdateFunc old cur =
    (case assert_IngressGroup old of
       Inl p \<Rightarrow> Inl p
     | Inr oldIngGroup \<Rightarrow>
         (case assert_IngressGroup cur of
            Inl p \<Rightarrow> Inl p
          | Inr curIngGroup \<Rightarrow>
              (case deref oldIngGroup of
                 Inl p \<Rightarrow> Inl p
               | Inr g \<Rightarrow>
                   (case deref curIngGroup of
                      Inl p \<Rightarrow> Inl p
                    | Inr h \<Rightarrow>
                        Inr (WARNING,
                          ''oldIngGroup: '' @ ObjectMeta.Namespace (IngressGroup.ObjectMeta g)
                            @ ''/'' @ ObjectMeta.Name (IngressGroup.ObjectMeta g)
                            @ '' ; curIngGroup: ''
                            @ ObjectMeta.Namespace (IngressGroup.ObjectMeta h)
                            @ ''/'' @ ObjectMeta.Name (IngressGroup.ObjectMeta h))))))"

definition ingGroupEventHandler :: ResourceEventHandlerFuncs where
  "ingGroupEventHandler =
    \<lparr>AddFunc = Some ingGroup_AddFunc,
     UpdateFunc = Some ingGroup_UpdateFunc,
     DeleteFunc = Some ingGroup_DeleteFunc\<rparr>"

subsection \<open>Time, contexts and channels\<close>

text \<open>
  \<^verbatim>\<open>time.Duration\<close> is an \<^verbatim>\<open>int64\<close> of nanoseconds. A channel that is only ever
  closed (the \<^verbatim>\<open>Done\<close> channel of a context) is the nil channel (\<open>None\<close>) or a channel
  with the tick at which it is closed, if ever. \<^verbatim>\<open>context.TODO()\<close> is the empty
  context, whose \<^verbatim>\<open>Done\<close> channel is nil; a cancellable context is given with the tick
  of its cancellation. \<open>recv ch n\<close> says whether a receive on \<open>ch\<close> has completed within
  \<open>n\<close> ticks: a receive on a nil channel, and on a channel that is never closed, blocks
  for ever.
\<close>

type_synonym Duration = "64 word"

definition Second :: Duration where
  "Second = 1000000000"

type_synonym chan = "nat option option"

datatype Context = emptyCtx | cancelCtx "nat option"

definition TODO :: Context where
  "TODO = emptyCtx"

fun Done :: "Context \<Rightarrow> chan" where
  "Done emptyCtx = None"
| "Done (cancelCtx t) = Some t"

fun recv :: "chan \<Rightarrow> nat \<Rightarrow> bool" where
  "recv None n = False"
| "recv (Some None) n = False"
| "recv (Some (Some t)) n = (t \<le> n)"

subsection \<open>The informer factory\<close>

text \<open>
  Modelled from the spec: the generated informer factory of
  \<^verbatim>\<open>pkg/client/informers/externalversions\<close> and the shared informer of the vendored
  \<^verbatim>\<open>client-go\<close>, whose code is not under src/. Section 6: handler registration accepts a
  handler set and may be called several times, each call registering one more handler.
  Section 4.3: the resync runs on a periodic timer that is configurable, and a zero
  duration disables periodic resync, the client then relying on live events alone. The
  factory keeps its client, its resync period and the IngressGroup informer once that
  has been requested; \<^verbatim>\<open>Start\<close> starts every informer requested so far.
\<close>

record SharedIndexInformer =
  handlers :: "ResourceEventHandlerFuncs list"
  resyncPeriod :: Duration
  started :: bool

record SharedInformerFactory =
  client :: VersionedClientset
  defaultResync :: Duration
  IngressGroups :: "SharedIndexInformer option"

definition NewSharedInformerFactory ::
  "VersionedClientset \<Rightarrow> Duration \<Rightarrow> SharedInformerFactory" where
  "NewSharedInformerFactory versionedClient resync =
    \<lparr>client = versionedClient, defaultResync = resync, IngressGroups = None\<rparr>"

definition IngressGroups_Informer :: "SharedInformerFactory \<Rightarrow> SharedIndexInformer" where
  "IngressGroups_Informer f =
    (case IngressGroups f of
       Some i \<Rightarrow> i
     | None \<Rightarrow> \<lparr>handlers = [], resyncPeriod = defaultResync f, started = False\<rparr>)"

definition IngressGroups_AddEventHandler ::
  "ResourceEventHandlerFuncs \<Rightarrow> SharedInformerFactory \<Rightarrow> SharedInformerFactory" where
  "IngressGroups_AddEventHandler h f =
    (let i = IngressGroups_Informer f
     in f\<lparr>IngressGroups := Some (i\<lparr>handlers := handlers i @ [h]\<rparr>)\<rparr>)"

definition Start :: "chan \<Rightarrow> SharedInformerFactory \<Rightarrow> SharedInformerFactory" where
  "Start stopCh f =
    f\<lparr>IngressGroups := map_option (\<lambda>i. i\<lparr>started := True\<rparr>) (IngressGroups f)\<rparr>"

definition periodicResync :: "SharedIndexInformer \<Rightarrow> bool" where
  "periodicResync i = (resyncPeriod i \<noteq> 0)"

subsection \<open>The world, the clients, Run and main\<close>

text \<open>
  The world: the cluster behind the clients, the log, standard error, and the informer
  factory once \<^verbatim>\<open>Run\<close> has built it.
\<close>

record 'c world =
  cluster :: 'c
  klog :: "(severity \<times> string) list"
  stderr :: "string list"
  sharedInformers :: "SharedInformerFactory option"

definition Infof :: "string \<Rightarrow> 'c world \<Rightarrow> 'c world" where
  "Infof msg w = w\<lparr>klog := klog w @ [(INFO, msg)]\<rparr>"

definition Fatal :: "string \<Rightarrow> 'c world \<Rightarrow> 'a exec \<times> 'c world" where
  "Fatal msg w = (Exit 255, w\<lparr>klog := klog w @ [(FATAL, msg)]\<rparr>)"

definition Fprint_stderr :: "string \<Rightarrow> 'c world \<Rightarrow> 'c world" where
  "Fprint_stderr msg w = w\<lparr>stderr := stderr w @ [msg]\<rparr>"

text \<open>
  \<^verbatim>\<open>createClients\<close>. \<^verbatim>\<open>AddUserAgent\<close> writes into the configuration it is given and
  returns the same pointer, so the configuration that is returned carries the user agent.
\<close>

definition createClients ::
  "'c env \<Rightarrow> OperatorManagerServer \<Rightarrow> 'c world \<Rightarrow>
   (error + Clientset \<times> 'c ExtensionsClientset \<times> Config) exec \<times> 'c world" where
  "createClients env s w =
    (case BuildConfigFromFlags env (Master s) (Kubeconfig s) of
       Inl err \<Rightarrow> (Return (Inl err), w)
     | Inr kubeconfig0 \<Rightarrow>
         (let kubeconfig1 = kubeconfig0\<lparr>QPS := 100, Burst := 100\<rparr>;
              kubeconfig2 = AddUserAgent env kubeconfig1 ''operator-manager''
          in case clientset_NewForConfig env kubeconfig2 of
               Inl err \<Rightarrow> Fatal (''Invalid API configuration: '' @ Error err) w
             | Inr kubeClient \<Rightarrow>
                 (let kubeconfig3 = AddUserAgent env kubeconfig2 ''operator-manager''
                  in case extensionsclient_NewForConfig env kubeconfig3 of
                       Inl err \<Rightarrow> Fatal (''Invalid API configuration: '' @ Error err) w
                     | Inr extensionClient \<Rightarrow>
                         (Return (Inr (kubeClient, extensionClient, kubeconfig3)), w))))"

text \<open>
  Lines 76-111 of \<^verbatim>\<open>Run\<close>: the versioned client, the informer factory, the handler
  registration, the start and the receive on the stop channel. \<open>n\<close> is the number of
  ticks for which the receive is observed.
\<close>

definition Run_watch ::
  "'c env \<Rightarrow> Config \<Rightarrow> nat \<Rightarrow> 'c world \<Rightarrow> error option exec \<times> 'c world" where
  "Run_watch env kubeconfig n w =
    (case igclient_NewForConfig env kubeconfig of
       Inl err \<Rightarrow> Fatal (Error err) w
     | Inr versionedClient \<Rightarrow>
         (let factory0 = NewSharedInformerFactory versionedClient (0 * Second);
              ctx = TODO;
              stopCh = Done ctx;
              factory1 = IngressGroups_AddEventHandler ingGroupEventHandler factory0;
              factory2 = Start stopCh factory1;
              w' = w\<lparr>sharedInformers := Some factory2\<rparr>
          in if recv stopCh n
             then (Return (Some (OtherError ''unreachable'')), w')
             else (Blocked, w')))"

text \<open>Lines 55-74 of \<^verbatim>\<open>Run\<close>, and then the rest of it.\<close>

definition Run ::
  "'c env \<Rightarrow> OperatorManagerServer \<Rightarrow> nat \<Rightarrow> 'c world \<Rightarrow> error option exec \<times> 'c world" where
  "Run env s n w0 =
    (case createClients env s (Infof (''Version: '' @ version_Get env) w0) of
       (Exit status, w) \<Rightarrow> (Exit status, w)
     | (Blocked, w) \<Rightarrow> (Blocked, w)
     | (Return (Inl err), w) \<Rightarrow> (Return (Some err), w)
     | (Return (Inr (kubeClient, extensionCRClient, kubeconfig)), w) \<Rightarrow>
         (case CreateIngressGroupCRD (GroupName env) extensionCRClient (cluster w) of
            (None, c) \<Rightarrow> Run_watch env kubeconfig n (w\<lparr>cluster := c\<rparr>)
          | (Some err, c) \<Rightarrow>
              if IsAlreadyExists err
              then Run_watch env kubeconfig n
                     (Infof ''redis cluster crd is already created.'' (w\<lparr>cluster := c\<rparr>))
              else (Return (Some err), Fprint_stderr (Error err) (w\<lparr>cluster := c\<rparr>))))"

text \<open>
  The flags. \<^verbatim>\<open>flag.StringVar(p, name, value, usage)\<close> stores the default \<open>value\<close>
  in \<open>*p\<close>, and \<^verbatim>\<open>flag.Parse\<close> then stores every value given for \<open>name\<close>, in order, so
  the last one stays. \<open>args\<close> are the flags that the command line gives, as pairs of a
  name and a value, for a command line that \<^verbatim>\<open>flag.Parse\<close> accepts (on any other it
  ends the process itself).
\<close>

definition StringVar :: "string \<Rightarrow> string \<Rightarrow> (string \<times> string) list \<Rightarrow> string" where
  "StringVar name val args =
    (case map_of (rev args) name of None \<Rightarrow> val | Some v \<Rightarrow> v)"

text \<open>Lines 37-41 of \<^verbatim>\<open>main\<close>: the server options after \<^verbatim>\<open>flag.Parse\<close>.\<close>

definition main_flags :: "(string \<times> string) list \<Rightarrow> OperatorManagerServer" where
  "main_flags args =
    (let s0 = NewOMServer;
         s1 = s0\<lparr>Master := StringVar ''master'' (Master s0) args\<rparr>;
         s2 = s1\<lparr>Kubeconfig := StringVar ''kubeconfig'' (Kubeconfig s1) args\<rparr>
     in s2)"

text \<open>
  \<^verbatim>\<open>main\<close>. \<^verbatim>\<open>verflag.PrintAndExitIfRequested\<close> ends the process with status 0 when
  the version was requested. When \<^verbatim>\<open>Run\<close> returns an error, \<^verbatim>\<open>main\<close> prints it
  with a newline to standard error and exits with status 1; \<open>Return ()\<close> is the return
  of \<^verbatim>\<open>main\<close> itself, with which the process ends with status 0.
\<close>

definition main ::
  "'c env \<Rightarrow> (string \<times> string) list \<Rightarrow> nat \<Rightarrow> 'c world \<Rightarrow> unit exec \<times> 'c world" where
  "main env args n w0 =
    (let s = main_flags args
     in if versionRequested env then (Exit 0, w0)
        else case Run env s n w0 of
               (Return (Some err), w) \<Rightarrow> (Exit 1, Fprint_stderr (Error err @ [CHR 0x0A]) w)
             | (Return None, w) \<Rightarrow> (Return (), w)
             | (Exit status, w) \<Rightarrow> (Exit status, w)
             | (Blocked, w) \<Rightarrow> (Blocked, w))"

subsection \<open>A concrete environment\<close>

text \<open>
  An environment on the cluster of the spec, for concrete runs: the configuration is
  found unless the kubeconfig path is "missing", and every clientset is built.
\<close>

definition test_env :: "cluster env" where
  "test_env =
    \<lparr>GroupName = ''example.k8s.io'',
     version_Get = ''v0.0.0'',
     versionRequested = False,
     BuildConfigFromFlags =
       (\<lambda>master kubeconfig.
          if kubeconfig = ''missing'' then Inl (OtherError ''stat missing: no such file'')
          else Inr \<lparr>Host = master, UserAgent = [], QPS = 0, Burst = 0\<rparr>),
     AddUserAgent = (\<lambda>config userAgent. config\<lparr>UserAgent := userAgent\<rparr>),
     clientset_NewForConfig = (\<lambda>config. Inr (Clientset config)),
     extensionsclient_NewForConfig = (\<lambda>config. Inr apiserver),
     igclient_NewForConfig = (\<lambda>config. Inr (VersionedClientset config))\<rparr>"

definition test_world :: "bool \<Rightarrow> CustomResourceDefinition list \<Rightarrow> cluster world" where
  "test_world up ds =
    \<lparr>cluster = \<lparr>reachable = up, schemas = ds\<rparr>, klog = [], stderr = [],
     sharedInformers = None\<rparr>"

text \<open>
  The IngressGroup "g1" of the namespace "default" with the services of the given names,
  all in that namespace.
\<close>

definition test_group :: "string list \<Rightarrow> IngressGroup" where
  "test_group names =
    \<lparr>IngressGroup.TypeMeta =
       \<lparr>TypeMeta.Kind = ''IngressGroup'', APIVersion = ''example.k8s.io/v1''\<rparr>,
     IngressGroup.ObjectMeta = \<lparr>ObjectMeta.Name = ''g1'', ObjectMeta.Namespace = ''default''\<rparr>,
     IngressGroup.Spec =
       \<lparr>Services =
          map (\<lambda>name. \<lparr>ServiceItem.Name = name, ServiceItem.Namespace = ''default''\<rparr>) names\<rparr>\<rparr>"

section \<open>Properties\<close>

text \<open>
  C4. The definition that \<^verbatim>\<open>CreateIngressGroupCRD\<close> submits through any client, in any
  state of the cluster, carries the group of \<^verbatim>\<open>SchemeGroupVersion\<close>, the single version
  "v1" that is served and is the storage version, the kinds IngressGroup and
  IngressGroupList, the plural "ingressgroups", the singular "ingressgroup", the short
  name "ig", and the namespaced scope.
\<close>

theorem C4_schema_identity:
  "CreateIngressGroupCRD G cl c = Create cl (crd G) c
   \<and> CustomResourceDefinitionSpec.Group (CustomResourceDefinition.Spec (crd G))
       = GroupVersion.Group (SchemeGroupVersion G)
   \<and> GroupVersion.Group (SchemeGroupVersion G) = G
   \<and> Versions (CustomResourceDefinition.Spec (crd G))
       = [\<lparr>CustomResourceDefinitionVersion.Name = ''v1'', Served = True, Storage = True\<rparr>]
   \<and> CustomResourceDefinitionNames.Kind (Names (CustomResourceDefinition.Spec (crd G)))
       = ''IngressGroup''
   \<and> ListKind (Names (CustomResourceDefinition.Spec (crd G))) = ''IngressGroupList''
   \<and> Plural (Names (CustomResourceDefinition.Spec (crd G))) = ''ingressgroups''
   \<and> Singular (Names (CustomResourceDefinition.Spec (crd G))) = ''ingressgroup''
   \<and> ShortNames (Names (CustomResourceDefinition.Spec (crd G))) = [''ig'']
   \<and> Scope (CustomResourceDefinition.Spec (crd G)) = NamespaceScoped"
  by (simp add: CreateIngressGroupCRD_def crd_def SchemeGroupVersion_def)

subsection \<open>Startup: the outcome of schema registration\<close>

lemma recv_Done_TODO: "recv (Done TODO) n = False"
  by (simp add: TODO_def)

lemma Run_watch_outcome:
  "fst (Run_watch env kubeconfig n w) =
    (case igclient_NewForConfig env kubeconfig of Inl err \<Rightarrow> Exit 255 | Inr vc \<Rightarrow> Blocked)"
  by (simp add: Run_watch_def Fatal_def recv_Done_TODO Let_def split: sum.splits)

lemma Run_watch_stderr:
  "stderr (snd (Run_watch env kubeconfig n w)) = stderr w"
  by (simp add: Run_watch_def Fatal_def recv_Done_TODO Let_def split: sum.splits)

lemma Run_watch_klog_mono:
  "set (klog w) \<subseteq> set (klog (snd (Run_watch env kubeconfig n w)))"
  by (auto simp add: Run_watch_def Fatal_def recv_Done_TODO Let_def split: sum.splits)

text \<open>
  C1. Let the clients be created and let schema registration return an error. If the
  error is AlreadyExists, \<^verbatim>\<open>Run\<close> logs that the definition is already created and
  goes on to the informers: it writes nothing to standard error, it does not return the
  error, and the process does not exit with status 1. For any other error, \<^verbatim>\<open>Run\<close>
  writes the error to standard error and returns it, and \<^verbatim>\<open>main\<close> writes it once
  more, with a newline, and ends the process with exit status 1.
\<close>

theorem C1_registration_outcome:
  assumes "createClients env s (Infof (''Version: '' @ version_Get env) w0)
             = (Return (Inr (kubeClient, extensionCRClient, kubeconfig)), w)"
    and "Create extensionCRClient (crd (GroupName env)) (cluster w) = (Some err, c)"
    and "\<not> versionRequested env"
    and "s = main_flags args"
  shows "(IsAlreadyExists err \<longrightarrow>
            Run env s n w0
              = Run_watch env kubeconfig n
                  (Infof ''redis cluster crd is already created.'' (w\<lparr>cluster := c\<rparr>))
            \<and> (INFO, ''redis cluster crd is already created.'') \<in> set (klog (snd (Run env s n w0)))
            \<and> stderr (snd (Run env s n w0)) = stderr w
            \<and> fst (Run env s n w0) \<noteq> Return (Some err)
            \<and> fst (main env args n w0) \<noteq> Exit 1)
       \<and> (\<not> IsAlreadyExists err \<longrightarrow>
            Run env s n w0 = (Return (Some err), Fprint_stderr (Error err) (w\<lparr>cluster := c\<rparr>))
            \<and> main env args n w0
                = (Exit 1,
                   Fprint_stderr (Error err @ [CHR 0x0A])
                     (Fprint_stderr (Error err) (w\<lparr>cluster := c\<rparr>))))"
proof (cases "IsAlreadyExists err")
  case True
  have run: "Run env s n w0
      = Run_watch env kubeconfig n
          (Infof ''redis cluster crd is already created.'' (w\<lparr>cluster := c\<rparr>))"
    using assms(1,2) True by (simp add: Run_def CreateIngressGroupCRD_def)
  have log: "(INFO, ''redis cluster crd is already created.'')
      \<in> set (klog (Infof ''redis cluster crd is already created.'' (w\<lparr>cluster := c\<rparr>)))"
    by (simp add: Infof_def)
  have fst_run: "fst (Run env s n w0) = Exit 255 \<or> fst (Run env s n w0) = Blocked"
    unfolding run Run_watch_outcome by (simp split: sum.splits)
  have "fst (main env args n w0) = Exit 255 \<or> fst (main env args n w0) = Blocked"
    using fst_run assms(3,4)
    by (cases "Run env s n w0") (auto simp add: main_def Let_def)
  then have m: "fst (main env args n w0) \<noteq> Exit 1" by auto
  from fst_run have r: "fst (Run env s n w0) \<noteq> Return (Some err)" by auto
  have log': "(INFO, ''redis cluster crd is already created.'') \<in> set (klog (snd (Run env s n w0)))"
    unfolding run using log Run_watch_klog_mono by blast
  have err: "stderr (snd (Run env s n w0)) = stderr w"
    unfolding run by (simp add: Run_watch_stderr Infof_def)
  show ?thesis
    using True run log' err m r by simp
next
  case False
  have run: "Run env s n w0 = (Return (Some err), Fprint_stderr (Error err) (w\<lparr>cluster := c\<rparr>))"
    using assms(1,2) False by (simp add: Run_def CreateIngressGroupCRD_def)
  show ?thesis
    using False run assms(3,4) by (simp add: main_def Let_def)
qed


lemma test_clients:
  "createClients test_env (main_flags []) (Infof (''Version: '' @ version_Get test_env) (test_world up ds))
    = (Return (Inr (Clientset \<lparr>Host = [], UserAgent = ''operator-manager'', QPS = 100, Burst = 100\<rparr>,
                     apiserver,
                     \<lparr>Host = [], UserAgent = ''operator-manager'', QPS = 100, Burst = 100\<rparr>)),
       Infof (''Version: '' @ version_Get test_env) (test_world up ds))"
  by (simp add: createClients_def test_env_def main_flags_def NewOMServer_def StringVar_def Let_def)

text \<open>
  The two cases on the cluster of the spec: the definition is already stored, and the
  cluster is unreachable.
\<close>

theorem C1_registration_outcome_witness:
  "fst (main test_env [] 0 (test_world True [crd ''example.k8s.io''])) \<noteq> Exit 1
   \<and> IsAlreadyExists (AlreadyExists ''ingressgroups.example.k8s.io already exists'')
   \<and> main test_env [] 0 (test_world False [])
     = (Exit 1,
        \<lparr>cluster = \<lparr>reachable = False, schemas = []\<rparr>,
         klog = [(INFO, ''Version: v0.0.0'')],
         stderr = [''cluster unreachable'', ''cluster unreachable'' @ [CHR 0x0A]],
         sharedInformers = None\<rparr>)
   \<and> \<not> IsAlreadyExists (OtherError ''cluster unreachable'')"
proof -
  have v: "\<not> versionRequested test_env"
    by (simp add: test_env_def)
  have a: "Create apiserver (crd (GroupName test_env))
             (cluster (Infof (''Version: '' @ version_Get test_env)
                (test_world True [crd ''example.k8s.io''])))
           = (Some (AlreadyExists ''ingressgroups.example.k8s.io already exists''),
              \<lparr>reachable = True, schemas = [crd ''example.k8s.io'']\<rparr>)"
    by (simp add: apiserver_def CreateSchema_def test_env_def test_world_def Infof_def
        schema_name_def crd_def SchemeGroupVersion_def)
  have b: "Create apiserver (crd (GroupName test_env))
             (cluster (Infof (''Version: '' @ version_Get test_env) (test_world False [])))
           = (Some (OtherError ''cluster unreachable''), \<lparr>reachable = False, schemas = []\<rparr>)"
    by (simp add: apiserver_def CreateSchema_def test_env_def test_world_def Infof_def)
  show ?thesis
    using C1_registration_outcome [OF test_clients a v refl, of 0]
      C1_registration_outcome [OF test_clients b v refl, of 0]
    by (simp add: test_env_def test_world_def Infof_def Fprint_stderr_def)
qed

subsection \<open>Handlers on foreign payloads\<close>

text \<open>
  C10. On a payload whose dynamic type is not \<^verbatim>\<open>*v1.IngressGroup\<close>, each of the three
  registered callbacks panics: Add by its unchecked type assertion, Delete by reading a
  field through the nil pointer that its checked assertion yields, and Update by its
  unchecked assertions, whether the payload is its old or its current object.
\<close>

theorem C10_handlers_panic:
  assumes "\<not> is_IngressGroupPtr x"
  shows "map_option (\<lambda>f. f x) (AddFunc ingGroupEventHandler) = Some (Inl TypeAssertionPanic)
       \<and> map_option (\<lambda>f. f x) (DeleteFunc ingGroupEventHandler) = Some (Inl NilPointerDereference)
       \<and> map_option (\<lambda>f. f x y) (UpdateFunc ingGroupEventHandler) = Some (Inl TypeAssertionPanic)
       \<and> map_option (\<lambda>f. f y x) (UpdateFunc ingGroupEventHandler) = Some (Inl TypeAssertionPanic)"
  using assms
  by (cases x; cases y)
     (simp_all add: ingGroupEventHandler_def ingGroup_AddFunc_def ingGroup_DeleteFunc_def
        ingGroup_UpdateFunc_def)

text \<open>
  A deletion tombstone is such a payload.
\<close>

theorem C10_handlers_panic_witness:
  "\<not> is_IngressGroupPtr (DeletedFinalStateUnknown ''default/g1'' (IngressGroupPtr None))
   \<and> map_option (\<lambda>f. f (DeletedFinalStateUnknown ''default/g1'' (IngressGroupPtr None)))
        (DeleteFunc ingGroupEventHandler) = Some (Inl NilPointerDereference)
   \<and> map_option (\<lambda>f. f (DeletedFinalStateUnknown ''default/g1'' (IngressGroupPtr None)))
        (AddFunc ingGroupEventHandler) = Some (Inl TypeAssertionPanic)"
  using C10_handlers_panic [of "DeletedFinalStateUnknown ''default/g1'' (IngressGroupPtr None)" NilInterface]
  by simp

subsection \<open>Run never returns from its receive\<close>















lemma test_Create_fresh:
  "Create apiserver (crd (GroupName test_env))
     (cluster (Infof (''Version: '' @ version_Get test_env) (test_world True [])))
   = (None, \<lparr>reachable = True, schemas = [crd (GroupName test_env)]\<rparr>)"
  by (simp add: apiserver_def CreateSchema_def test_world_def Infof_def)


subsection \<open>The informer that Run starts\<close>

lemma Run_watch_informers:
  assumes "igclient_NewForConfig env kubeconfig = Inr vc"
  shows "sharedInformers (snd (Run_watch env kubeconfig n w))
         = Some (Start (Done TODO)
             (IngressGroups_AddEventHandler ingGroupEventHandler
               (NewSharedInformerFactory vc (0 * Second))))"
  using assms by (simp add: Run_watch_def recv_Done_TODO Let_def)

lemma Run_informers:
  assumes "createClients env s (Infof (''Version: '' @ version_Get env) w0)
           = (Return (Inr (kubeClient, x, kubeconfig)), w)"
    and "Create x (crd (GroupName env)) (cluster w) = (e, c)"
    and "e = None \<or> (\<exists>err. e = Some err \<and> IsAlreadyExists err)"
    and "igclient_NewForConfig env kubeconfig = Inr vc"
  shows "sharedInformers (snd (Run env s n w0))
         = Some (Start (Done TODO)
             (IngressGroups_AddEventHandler ingGroupEventHandler
               (NewSharedInformerFactory vc (0 * Second))))"
  using assms(1,2,3) Run_watch_informers [OF assms(4)]
  by (auto simp add: Run_def CreateIngressGroupCRD_def)

lemma started_factory:
  "Start ch (IngressGroups_AddEventHandler h (NewSharedInformerFactory vc d))
   = \<lparr>client = vc, defaultResync = d,
      IngressGroups = Some \<lparr>handlers = [h], resyncPeriod = d, started = True\<rparr>\<rparr>"
  by (simp add: Start_def IngressGroups_AddEventHandler_def IngressGroups_Informer_def
      NewSharedInformerFactory_def Let_def)

lemma test_igclient:
  "igclient_NewForConfig test_env
     \<lparr>Host = [], UserAgent = ''operator-manager'', QPS = 100, Burst = 100\<rparr>
   = Inr (VersionedClientset
       \<lparr>Host = [], UserAgent = ''operator-manager'', QPS = 100, Burst = 100\<rparr>)"
  by (simp add: test_env_def)

text \<open>
  C8. After a successful startup the IngressGroup informer of the factory is started and
  holds one handler set, the one of \<^verbatim>\<open>Run\<close>, with all three callbacks set. The Add
  and the Delete callback take one object and log its namespace and name; the Update
  callback takes the prior and the current object and logs the namespace and name of
  both.
\<close>

theorem C8_handler_set:
  assumes "createClients env s (Infof (''Version: '' @ version_Get env) w0)
           = (Return (Inr (kubeClient, x, kubeconfig)), w)"
    and "Create x (crd (GroupName env)) (cluster w) = (e, c)"
    and "e = None \<or> (\<exists>err. e = Some err \<and> IsAlreadyExists err)"
    and "igclient_NewForConfig env kubeconfig = Inr vc"
  shows "(\<exists>f i. sharedInformers (snd (Run env s n w0)) = Some f
            \<and> IngressGroups f = Some i
            \<and> handlers i = [ingGroupEventHandler]
            \<and> started i)
       \<and> AddFunc ingGroupEventHandler = Some ingGroup_AddFunc
       \<and> UpdateFunc ingGroupEventHandler = Some ingGroup_UpdateFunc
       \<and> DeleteFunc ingGroupEventHandler = Some ingGroup_DeleteFunc
       \<and> ingGroup_AddFunc (IngressGroupPtr (Some g))
           = Inr (WARNING, ''addIngGroup: '' @ ObjectMeta.Namespace (IngressGroup.ObjectMeta g)
                     @ ''/'' @ ObjectMeta.Name (IngressGroup.ObjectMeta g))
       \<and> ingGroup_DeleteFunc (IngressGroupPtr (Some g))
           = Inr (WARNING, ''delIngGroup: '' @ ObjectMeta.Namespace (IngressGroup.ObjectMeta g)
                     @ ''/'' @ ObjectMeta.Name (IngressGroup.ObjectMeta g))
       \<and> ingGroup_UpdateFunc (IngressGroupPtr (Some old)) (IngressGroupPtr (Some cur))
           = Inr (WARNING, ''oldIngGroup: '' @ ObjectMeta.Namespace (IngressGroup.ObjectMeta old)
                     @ ''/'' @ ObjectMeta.Name (IngressGroup.ObjectMeta old)
                     @ '' ; curIngGroup: '' @ ObjectMeta.Namespace (IngressGroup.ObjectMeta cur)
                     @ ''/'' @ ObjectMeta.Name (IngressGroup.ObjectMeta cur))"
proof -
  have "\<exists>f i. sharedInformers (snd (Run env s n w0)) = Some f
            \<and> IngressGroups f = Some i
            \<and> handlers i = [ingGroupEventHandler]
            \<and> started i"
    unfolding Run_informers [OF assms] started_factory by simp
  then show ?thesis
    by (simp add: ingGroupEventHandler_def ingGroup_AddFunc_def ingGroup_DeleteFunc_def
        ingGroup_UpdateFunc_def)
qed

text \<open>
  The update of the spec's scenario: "g1" gains the service "svc2".
\<close>

theorem C8_handler_set_witness:
  "(\<exists>f i. sharedInformers (snd (Run test_env (main_flags []) 3 (test_world True []))) = Some f
        \<and> IngressGroups f = Some i \<and> handlers i = [ingGroupEventHandler] \<and> started i)
   \<and> ingGroup_UpdateFunc
        (IngressGroupPtr (Some (test_group [''svc1''])))
        (IngressGroupPtr (Some (test_group [''svc1'', ''svc2''])))
      = Inr (WARNING, ''oldIngGroup: default/g1 ; curIngGroup: default/g1'')"
proof -
  have e: "(None :: error option) = None \<or> (\<exists>err. (None :: error option) = Some err \<and> IsAlreadyExists err)"
    by simp
  have u: "ingGroup_UpdateFunc
        (IngressGroupPtr (Some (test_group [''svc1''])))
        (IngressGroupPtr (Some (test_group [''svc1'', ''svc2''])))
      = Inr (WARNING, ''oldIngGroup: default/g1 ; curIngGroup: default/g1'')"
    using C8_handler_set [OF test_clients test_Create_fresh e test_igclient,
        of 3 "test_group []" "test_group [''svc1'']" "test_group [''svc1'', ''svc2'']"]
    by (simp add: test_group_def)
  have r: "\<exists>f i. sharedInformers (snd (Run test_env (main_flags []) 3 (test_world True []))) = Some f
        \<and> IngressGroups f = Some i \<and> handlers i = [ingGroupEventHandler] \<and> started i"
    using C8_handler_set [OF test_clients test_Create_fresh e test_igclient,
        of 3 "test_group []" "test_group [''svc1'']" "test_group [''svc1'', ''svc2'']"]
    by (rule conjunct1)
  from r u show ?thesis by (rule conjI)
qed

text \<open>
  C2. The resync period is the one the factory is constructed with: an informer of a
  factory built with the period \<open>d\<close> resyncs periodically exactly when \<open>d\<close> is not
  zero. The program constructs its factory with \<^verbatim>\<open>time.Duration(0)*time.Second\<close>, which
  is zero, so after a successful startup the IngressGroup informer runs with a resync
  period of zero and without periodic resync.
\<close>

theorem C2_resync_period:
  "(\<forall>vc d h. periodicResync
        (IngressGroups_Informer (IngressGroups_AddEventHandler h (NewSharedInformerFactory vc d)))
        = (d \<noteq> 0))
   \<and> (\<forall>kubeClient x kubeconfig w e c vc n.
         createClients env s (Infof (''Version: '' @ version_Get env) w0)
           = (Return (Inr (kubeClient, x, kubeconfig)), w)
         \<longrightarrow> Create x (crd (GroupName env)) (cluster w) = (e, c)
         \<longrightarrow> (e = None \<or> (\<exists>err. e = Some err \<and> IsAlreadyExists err))
         \<longrightarrow> igclient_NewForConfig env kubeconfig = Inr vc
         \<longrightarrow> (\<exists>f i. sharedInformers (snd (Run env s n w0)) = Some f
                \<and> defaultResync f = 0
                \<and> IngressGroups f = Some i
                \<and> resyncPeriod i = defaultResync f
                \<and> started i
                \<and> \<not> periodicResync i))"
proof -
  have a: "\<forall>vc d h. periodicResync
        (IngressGroups_Informer (IngressGroups_AddEventHandler h (NewSharedInformerFactory vc d)))
        = (d \<noteq> 0)"
    by (simp add: periodicResync_def IngressGroups_AddEventHandler_def
        IngressGroups_Informer_def NewSharedInformerFactory_def Let_def)
  have b: "\<exists>f i. sharedInformers (snd (Run env s n w0)) = Some f
                \<and> defaultResync f = 0
                \<and> IngressGroups f = Some i
                \<and> resyncPeriod i = defaultResync f
                \<and> started i
                \<and> \<not> periodicResync i"
    if "createClients env s (Infof (''Version: '' @ version_Get env) w0)
           = (Return (Inr (kubeClient, x, kubeconfig)), w)"
      and "Create x (crd (GroupName env)) (cluster w) = (e, c)"
      and "e = None \<or> (\<exists>err. e = Some err \<and> IsAlreadyExists err)"
      and "igclient_NewForConfig env kubeconfig = Inr vc"
    for kubeClient x kubeconfig w e c vc n
    unfolding Run_informers [OF that] started_factory
    by (simp add: periodicResync_def)
  from a b show ?thesis by blast
qed

text \<open>
  The program's run on the concrete environment, and a factory with a period of thirty
  seconds, which does resync.
\<close>

theorem C2_resync_period_witness:
  "(\<exists>f i. sharedInformers (snd (Run test_env (main_flags []) 3 (test_world True []))) = Some f
        \<and> defaultResync f = 0 \<and> IngressGroups f = Some i \<and> \<not> periodicResync i)
   \<and> periodicResync
        (IngressGroups_Informer (IngressGroups_AddEventHandler ingGroupEventHandler
           (NewSharedInformerFactory (VersionedClientset
               \<lparr>Host = [], UserAgent = ''operator-manager'', QPS = 100, Burst = 100\<rparr>)
             (30 * Second))))"
proof -
  have e: "(None :: error option) = None \<or> (\<exists>err. (None :: error option) = Some err \<and> IsAlreadyExists err)"
    by simp
  have d: "(30 * Second :: Duration) \<noteq> 0"
    by (simp add: Second_def)
  note inst = C2_resync_period [of test_env "main_flags []" "test_world True []"]
  from inst have a: "periodicResync
        (IngressGroups_Informer (IngressGroups_AddEventHandler ingGroupEventHandler
           (NewSharedInformerFactory (VersionedClientset
               \<lparr>Host = [], UserAgent = ''operator-manager'', QPS = 100, Burst = 100\<rparr>)
             (30 * Second))))"
    using d by simp
  from inst test_clients [of True "[]"] test_Create_fresh e test_igclient
  have "\<exists>f i. sharedInformers (snd (Run test_env (main_flags []) 3 (test_world True []))) = Some f
                \<and> defaultResync f = 0
                \<and> IngressGroups f = Some i
                \<and> resyncPeriod i = defaultResync f
                \<and> started i
                \<and> \<not> periodicResync i"
    by (elim conjE allE impE) assumption+
  then have b: "\<exists>f i. sharedInformers (snd (Run test_env (main_flags []) 3 (test_world True []))) = Some f
        \<and> defaultResync f = 0 \<and> IngressGroups f = Some i \<and> \<not> periodicResync i"
    by blast
  from b a show ?thesis by (rule conjI)
qed

subsection \<open>Registration is idempotent\<close>

lemma schema_name_crd: "schema_name (crd G) = ''ingressgroups.'' @ G"
  by (simp add: schema_name_def crd_def SchemeGroupVersion_def)

lemma CreateSchema_first:
  assumes "reachable c"
  shows "\<exists>e1 c1. CreateSchema d c = (e1, c1)
           \<and> (e1 = None \<or> (\<exists>msg. e1 = Some (AlreadyExists msg)))
           \<and> reachable c1
           \<and> schema_name d \<in> set (map schema_name (schemas c1))
           \<and> length (filter (\<lambda>x. schema_name x = schema_name d) (schemas c1))
               = max 1 (length (filter (\<lambda>x. schema_name x = schema_name d) (schemas c)))
           \<and> (distinct (map schema_name (schemas c)) \<longrightarrow> distinct (map schema_name (schemas c1)))"
proof (cases "schema_name d \<in> set (map schema_name (schemas c))")
  case True
  then have "filter (\<lambda>x. schema_name x = schema_name d) (schemas c) \<noteq> []"
    by (auto simp add: filter_empty_conv)
  then have "1 \<le> length (filter (\<lambda>x. schema_name x = schema_name d) (schemas c))"
    by (cases "filter (\<lambda>x. schema_name x = schema_name d) (schemas c)") simp_all
  with True assms show ?thesis
    by (simp add: CreateSchema_def max_def)
next
  case False
  then have "filter (\<lambda>x. schema_name x = schema_name d) (schemas c) = []"
    by (force simp add: filter_empty_conv image_iff)
  with False assms show ?thesis
    by (simp add: CreateSchema_def)
qed

lemma CreateSchema_again:
  assumes "reachable c" and "schema_name d \<in> set (map schema_name (schemas c))"
  shows "CreateSchema d c = (Some (AlreadyExists (schema_name d @ '' already exists'')), c)"
  using assms by (simp add: CreateSchema_def)

text \<open>
  C3. \<^verbatim>\<open>CreateIngressGroupCRD\<close> submits the same definition, named "ingressgroups."
  followed by the group, through every client and in every state. On the cluster of the
  spec, while it is reachable: the first registration succeeds or says AlreadyExists;
  a second registration says AlreadyExists and leaves the cluster as it is; and the
  cluster then stores the definition once if it did not store it before, and as often as
  before otherwise, so that names that were distinct stay distinct.
\<close>

theorem C3_registration_idempotent:
  "(\<forall>cl st. CreateIngressGroupCRD G cl st = Create cl (crd G) st)
   \<and> schema_name (crd G) = ''ingressgroups.'' @ G
   \<and> (\<forall>c. reachable c \<longrightarrow>
        (\<exists>e1 c1. CreateIngressGroupCRD G apiserver c = (e1, c1)
           \<and> (e1 = None \<or> (\<exists>msg. e1 = Some (AlreadyExists msg)))
           \<and> CreateIngressGroupCRD G apiserver c1
               = (Some (AlreadyExists (''ingressgroups.'' @ G @ '' already exists'')), c1)
           \<and> length (filter (\<lambda>x. schema_name x = ''ingressgroups.'' @ G) (schemas c1))
               = max 1 (length (filter (\<lambda>x. schema_name x = ''ingressgroups.'' @ G) (schemas c)))
           \<and> (distinct (map schema_name (schemas c)) \<longrightarrow> distinct (map schema_name (schemas c1)))))"
proof -
  have a: "\<forall>cl st. CreateIngressGroupCRD G cl st = Create cl (crd G) st"
    by (simp add: CreateIngressGroupCRD_def)
  have b: "\<exists>e1 c1. CreateIngressGroupCRD G apiserver c = (e1, c1)
           \<and> (e1 = None \<or> (\<exists>msg. e1 = Some (AlreadyExists msg)))
           \<and> CreateIngressGroupCRD G apiserver c1
               = (Some (AlreadyExists (''ingressgroups.'' @ G @ '' already exists'')), c1)
           \<and> length (filter (\<lambda>x. schema_name x = ''ingressgroups.'' @ G) (schemas c1))
               = max 1 (length (filter (\<lambda>x. schema_name x = ''ingressgroups.'' @ G) (schemas c)))
           \<and> (distinct (map schema_name (schemas c)) \<longrightarrow> distinct (map schema_name (schemas c1)))"
    if "reachable c" for c
  proof -
    from CreateSchema_first [OF that, of "crd G"]
    obtain e1 c1 where first: "CreateSchema (crd G) c = (e1, c1)"
      and e1: "e1 = None \<or> (\<exists>msg. e1 = Some (AlreadyExists msg))"
      and up: "reachable c1"
      and stored: "schema_name (crd G) \<in> set (map schema_name (schemas c1))"
      and count: "length (filter (\<lambda>x. schema_name x = schema_name (crd G)) (schemas c1))
               = max 1 (length (filter (\<lambda>x. schema_name x = schema_name (crd G)) (schemas c)))"
      and dist: "distinct (map schema_name (schemas c)) \<longrightarrow> distinct (map schema_name (schemas c1))"
      by blast
    from CreateSchema_again [OF up stored]
    have again: "CreateSchema (crd G) c1
        = (Some (AlreadyExists (''ingressgroups.'' @ G @ '' already exists'')), c1)"
      by (simp add: schema_name_crd)
    from first e1 again count dist show ?thesis
      by (simp add: CreateIngressGroupCRD_def apiserver_def schema_name_crd)
  qed
  from a schema_name_crd b show ?thesis by blast
qed

text \<open>
  Two registrations on a reachable cluster that stores nothing yet.
\<close>

theorem C3_registration_idempotent_witness:
  "reachable \<lparr>reachable = True, schemas = []\<rparr>
   \<and> distinct (map schema_name (schemas \<lparr>reachable = True, schemas = []\<rparr>))
   \<and> CreateIngressGroupCRD ''example.k8s.io'' apiserver \<lparr>reachable = True, schemas = []\<rparr>
       = (None, \<lparr>reachable = True, schemas = [crd ''example.k8s.io'']\<rparr>)
   \<and> CreateIngressGroupCRD ''example.k8s.io'' apiserver
         \<lparr>reachable = True, schemas = [crd ''example.k8s.io'']\<rparr>
       = (Some (AlreadyExists ''ingressgroups.example.k8s.io already exists''),
          \<lparr>reachable = True, schemas = [crd ''example.k8s.io'']\<rparr>)"
proof -
  have r: "reachable \<lparr>reachable = True, schemas = []\<rparr>"
    by simp
  have f: "CreateIngressGroupCRD ''example.k8s.io'' apiserver \<lparr>reachable = True, schemas = []\<rparr>
       = (None, \<lparr>reachable = True, schemas = [crd ''example.k8s.io'']\<rparr>)"
    by (simp add: CreateIngressGroupCRD_def apiserver_def CreateSchema_def)
  from C3_registration_idempotent [of "''example.k8s.io''"] r
  have "\<exists>e1 c1. CreateIngressGroupCRD ''example.k8s.io'' apiserver \<lparr>reachable = True, schemas = []\<rparr>
           = (e1, c1)
         \<and> CreateIngressGroupCRD ''example.k8s.io'' apiserver c1
               = (Some (AlreadyExists (''ingressgroups.'' @ ''example.k8s.io'' @ '' already exists'')), c1)"
    by blast
  with f have "CreateIngressGroupCRD ''example.k8s.io'' apiserver
         \<lparr>reachable = True, schemas = [crd ''example.k8s.io'']\<rparr>
       = (Some (AlreadyExists ''ingressgroups.example.k8s.io already exists''),
          \<lparr>reachable = True, schemas = [crd ''example.k8s.io'']\<rparr>)"
    by auto
  with r f show ?thesis by simp
qed

subsection \<open>The published validation rules\<close>

lemma validate_item_in_array:
  assumes "i < length xs" and "e \<in> set (validate sch (p @ [Index i]) (xs ! i))"
  shows "e \<in> set (concat (map (\<lambda>(i, x). validate sch (p @ [Index i]) x) (enumerate 0 xs)))"
proof -
  from assms(1) have "(i, xs ! i) \<in> set (enumerate 0 xs)"
    by (simp add: in_set_enumerate_eq)
  with assms(2) show ?thesis by force
qed

lemma validate_required:
  assumes "k \<in> set req" and "map_of fs k = None"
  shows "ValidationError (p @ [Key k]) ''required''
           \<in> set (validate (JSONSchemaProps ty items req props) p (JObject fs))"
  using assms by simp

lemma validate_property:
  assumes "(k, sub) \<in> set props" and "map_of fs k = Some x"
    and "e \<in> set (validate sub (p @ [Key k]) x)"
  shows "e \<in> set (validate (JSONSchemaProps ty items req props) p (JObject fs))"
  using assms by force

lemma validate_items:
  assumes "i < length xs" and "e \<in> set (validate sch (p @ [Index i]) (xs ! i))"
  shows "e \<in> set (validate (JSONSchemaProps ty (Some (JSONSchemaPropsOrArray (Some sch) others)) req props)
                      p (JArray xs))"
  using validate_item_in_array [OF assms] by simp

lemma admit_missing_key:
  assumes "map_of fs ''spec'' = Some (JObject sp)"
    and "map_of sp ''services'' = Some (JArray items)"
    and "i < length items"
    and "items ! i = JObject item"
    and "k = ''name'' \<or> k = ''namespace''"
    and "map_of item k = None"
  shows "ValidationError [Key ''spec'', Key ''services'', Index i, Key k] ''required''
           \<in> set (admit (crd G) (JObject fs))"
proof -
  let ?item = "JSONSchemaProps ''object'' None [''name'', ''namespace'']
                 [(''name'', JSONSchemaProps ''string'' None [] []),
                  (''namespace'', JSONSchemaProps ''string'' None [] [])]"
  let ?services = "JSONSchemaProps ''array'' (Some (JSONSchemaPropsOrArray (Some ?item) [])) [] []"
  let ?spec = "JSONSchemaProps [] None [] [(''services'', ?services)]"
  let ?top = "JSONSchemaProps [] None [] [(''spec'', ?spec)]"
  let ?e = "ValidationError [Key ''spec'', Key ''services'', Index i, Key k] ''required''"
  have adm: "admit (crd G) (JObject fs) = validate ?top [] (JObject fs)"
    by (simp del: validate.simps add: admit_def crd_def)
  from assms(5) have "k \<in> set [''name'', ''namespace'']"
    by auto
  from validate_required [OF this assms(6), of "[Key ''spec'', Key ''services'', Index i]"]
  have "?e \<in> set (validate ?item ([Key ''spec'', Key ''services''] @ [Index i]) (items ! i))"
    by (simp del: validate.simps add: assms(4))
  from validate_items [OF assms(3) this]
  have "?e \<in> set (validate ?services ([Key ''spec''] @ [Key ''services'']) (JArray items))"
    by (simp del: validate.simps)
  from validate_property [OF _ assms(2) this, of "[(''services'', ?services)]"]
  have "?e \<in> set (validate ?spec ([] @ [Key ''spec'']) (JObject sp))"
    by (simp del: validate.simps)
  from validate_property [OF _ assms(1) this, of "[(''spec'', ?spec)]"]
  have "?e \<in> set (validate ?top [] (JObject fs))"
    by (simp del: validate.simps)
  with adm show ?thesis by (simp del: validate.simps)
qed

text \<open>
  C5. The schema published with the definition declares, under the property "spec", the
  property "services" as an array whose items are objects with the required keys "name"
  and "namespace", both declared as strings. So a payload in which some item of
  spec.services is an object without "name", or without "namespace", fails validation:
  the errors name the missing key of that item as required.
\<close>

theorem C5_validation_rules:
  "(\<exists>top spec services item.
      Validation (CustomResourceDefinition.Spec (crd G)) = Some \<lparr>OpenAPIV3Schema = Some top\<rparr>
      \<and> map_of (Properties top) ''spec'' = Some spec
      \<and> map_of (Properties spec) ''services'' = Some services
      \<and> Type services = ''array''
      \<and> Items services = Some (JSONSchemaPropsOrArray (Some item) [])
      \<and> Type item = ''object''
      \<and> Required item = [''name'', ''namespace'']
      \<and> map (\<lambda>(k, s). (k, Type s)) (Properties item)
          = [(''name'', ''string''), (''namespace'', ''string'')])
   \<and> (\<forall>fs sp items i item k.
         map_of fs ''spec'' = Some (JObject sp)
         \<longrightarrow> map_of sp ''services'' = Some (JArray items)
         \<longrightarrow> i < length items
         \<longrightarrow> items ! i = JObject item
         \<longrightarrow> (k = ''name'' \<or> k = ''namespace'')
         \<longrightarrow> map_of item k = None
         \<longrightarrow> ValidationError [Key ''spec'', Key ''services'', Index i, Key k] ''required''
               \<in> set (admit (crd G) (JObject fs)))"
proof -
  have a: "\<exists>top spec services item.
      Validation (CustomResourceDefinition.Spec (crd G)) = Some \<lparr>OpenAPIV3Schema = Some top\<rparr>
      \<and> map_of (Properties top) ''spec'' = Some spec
      \<and> map_of (Properties spec) ''services'' = Some services
      \<and> Type services = ''array''
      \<and> Items services = Some (JSONSchemaPropsOrArray (Some item) [])
      \<and> Type item = ''object''
      \<and> Required item = [''name'', ''namespace'']
      \<and> map (\<lambda>(k, s). (k, Type s)) (Properties item)
          = [(''name'', ''string''), (''namespace'', ''string'')]"
    by (simp add: crd_def)
  have b: "\<forall>fs sp items i item k.
         map_of fs ''spec'' = Some (JObject sp)
         \<longrightarrow> map_of sp ''services'' = Some (JArray items)
         \<longrightarrow> i < length items
         \<longrightarrow> items ! i = JObject item
         \<longrightarrow> (k = ''name'' \<or> k = ''namespace'')
         \<longrightarrow> map_of item k = None
         \<longrightarrow> ValidationError [Key ''spec'', Key ''services'', Index i, Key k] ''required''
               \<in> set (admit (crd G) (JObject fs))"
    by (intro allI impI) (rule admit_missing_key, assumption+)
  from a b show ?thesis by (rule conjI)
qed


text \<open>
  A payload whose second service has no namespace fails with exactly that error; the
  serialised group "g1" with two complete services passes.
\<close>

theorem C5_validation_rules_witness:
  "ValidationError [Key ''spec'', Key ''services'', Index 1, Key ''namespace''] ''required''
     \<in> set (admit (crd ''example.k8s.io'')
         (JObject [(''spec'', JObject [(''services'', JArray
            [JObject [(''name'', JString ''svc1''), (''namespace'', JString ''default'')],
             JObject [(''name'', JString ''svc2'')]])])]))
   \<and> admit (crd ''example.k8s.io'')
         (JObject [(''spec'', JObject [(''services'', JArray
            [JObject [(''name'', JString ''svc1''), (''namespace'', JString ''default'')],
             JObject [(''name'', JString ''svc2'')]])])])
       = [ValidationError [Key ''spec'', Key ''services'', Index 1, Key ''namespace''] ''required'']
   \<and> admit (crd ''example.k8s.io'')
         (Marshal_IngressGroup inline_TypeMeta Marshal_ObjectMeta (test_group [''svc1'', ''svc2'']))
       = []"
proof -
  let ?items = "[JObject [(''name'', JString ''svc1''), (''namespace'', JString ''default'')],
             JObject [(''name'', JString ''svc2'')]]"
  have 1: "map_of [(''spec'', JObject [(''services'', JArray ?items)])] ''spec''
             = Some (JObject [(''services'', JArray ?items)])"
    by simp
  have 2: "map_of [(''services'', JArray ?items)] ''services'' = Some (JArray ?items)"
    by simp
  have 3: "1 < length ?items"
    by simp
  have 4: "?items ! 1 = JObject [(''name'', JString ''svc2'')]"
    by simp
  have 5: "''namespace'' = ''name'' \<or> ''namespace'' = ''namespace''"
    by simp
  have 6: "map_of [(''name'', JString ''svc2'')] ''namespace'' = None"
    by simp
  from C5_validation_rules [of "''example.k8s.io''"] 1 2 3 4 5 6
  have a: "ValidationError [Key ''spec'', Key ''services'', Index 1, Key ''namespace''] ''required''
     \<in> set (admit (crd ''example.k8s.io'')
         (JObject [(''spec'', JObject [(''services'', JArray ?items)])]))"
    by (elim conjE allE impE) assumption+
  have b: "admit (crd ''example.k8s.io'')
         (JObject [(''spec'', JObject [(''services'', JArray ?items)])])
       = [ValidationError [Key ''spec'', Key ''services'', Index 1, Key ''namespace''] ''required'']"
    by (simp add: admit_def crd_def)
  have c: "admit (crd ''example.k8s.io'')
         (Marshal_IngressGroup inline_TypeMeta Marshal_ObjectMeta (test_group [''svc1'', ''svc2'']))
       = []"
    by (simp add: admit_def crd_def Marshal_IngressGroup_def Marshal_IngressGroupSpec_def
        Marshal_ServiceItem_def Marshal_ObjectMeta_def inline_TypeMeta_def test_group_def)
  from a b c show ?thesis by simp
qed

subsection \<open>The wire shape\<close>

lemma map_of_filter_metadata:
  "map_of (filter (\<lambda>(k, v). k \<noteq> ''metadata'' \<and> k \<noteq> ''spec'') xs) ''metadata'' = None"
  by (induction xs) auto

lemma map_of_filter_spec:
  "map_of (filter (\<lambda>(k, v). k \<noteq> ''metadata'' \<and> k \<noteq> ''spec'') xs) ''spec'' = None"
  by (induction xs) auto

text \<open>
  C6, as stated, fails on an IngressGroup without services: \<^verbatim>\<open>omitempty\<close> on
  \<^verbatim>\<open>Services\<close> leaves the key out, and the spec is the empty object.
\<close>

theorem C6_wire_shape_counterexample:
  "Marshal_IngressGroup inline_TypeMeta Marshal_ObjectMeta (test_group [])
     = JObject [(''kind'', JString ''IngressGroup''),
                (''apiVersion'', JString ''example.k8s.io/v1''),
                (''metadata'', JObject [(''name'', JString ''g1''), (''namespace'', JString ''default'')]),
                (''spec'', JObject [])]
   \<and> member_of ''services'' (Marshal_IngressGroupSpec (IngressGroup.Spec (test_group []))) = None"
  by (simp add: Marshal_IngressGroup_def Marshal_IngressGroupSpec_def
      Marshal_ObjectMeta_def inline_TypeMeta_def test_group_def)

text \<open>
  C6, amended. An IngressGroup serialises as an object with the inline fields of its type
  metadata, then "metadata" and "spec". When the group has at least one service, the
  spec is an object with the single key "services", an array with one object per service
  in order, each with exactly the keys "name" and "namespace" and the service's two
  strings. When the group has no service, the spec is the empty object.
\<close>

theorem C6_wire_shape:
  "member_of ''metadata'' (Marshal_IngressGroup inlineTypeMeta marshalObjectMeta ig)
     = Some (marshalObjectMeta (IngressGroup.ObjectMeta ig))
   \<and> member_of ''spec'' (Marshal_IngressGroup inlineTypeMeta marshalObjectMeta ig)
     = Some (Marshal_IngressGroupSpec (IngressGroup.Spec ig))
   \<and> keys_of (Marshal_IngressGroup inlineTypeMeta marshalObjectMeta ig)
     = map fst (filter (\<lambda>(k, v). k \<noteq> ''metadata'' \<and> k \<noteq> ''spec'')
                  (inlineTypeMeta (IngressGroup.TypeMeta ig)))
       @ [''metadata'', ''spec'']
   \<and> (Services (IngressGroup.Spec ig) \<noteq> [] \<longrightarrow>
        Marshal_IngressGroupSpec (IngressGroup.Spec ig)
          = JObject [(''services'', JArray (map Marshal_ServiceItem (Services (IngressGroup.Spec ig))))])
   \<and> (Services (IngressGroup.Spec ig) = [] \<longrightarrow>
        Marshal_IngressGroupSpec (IngressGroup.Spec ig) = JObject [])
   \<and> (\<forall>si. Marshal_ServiceItem si
          = JObject [(''name'', JString (ServiceItem.Name si)),
                     (''namespace'', JString (ServiceItem.Namespace si))]
        \<and> keys_of (Marshal_ServiceItem si) = [''name'', ''namespace''])"
  by (simp add: Marshal_IngressGroup_def Marshal_IngressGroupSpec_def Marshal_ServiceItem_def
      map_add_def map_of_filter_metadata map_of_filter_spec)

text \<open>
  The group "g1" with one service, and without any.
\<close>

theorem C6_wire_shape_witness:
  "Services (IngressGroup.Spec (test_group [''svc1''])) \<noteq> []
   \<and> Marshal_IngressGroup inline_TypeMeta Marshal_ObjectMeta (test_group [''svc1''])
     = JObject [(''kind'', JString ''IngressGroup''),
                (''apiVersion'', JString ''example.k8s.io/v1''),
                (''metadata'', JObject [(''name'', JString ''g1''), (''namespace'', JString ''default'')]),
                (''spec'', JObject [(''services'', JArray
                   [JObject [(''name'', JString ''svc1''), (''namespace'', JString ''default'')]])])]
   \<and> Services (IngressGroup.Spec (test_group [])) = []
   \<and> member_of ''spec'' (Marshal_IngressGroup inline_TypeMeta Marshal_ObjectMeta (test_group []))
     = Some (JObject [])"
proof -
  have a: "Services (IngressGroup.Spec (test_group [''svc1''])) \<noteq> []"
    by (simp add: test_group_def)
  have b: "Services (IngressGroup.Spec (test_group [])) = []"
    by (simp add: test_group_def)
  from C6_wire_shape [of inline_TypeMeta Marshal_ObjectMeta "test_group []"] b
  have c: "member_of ''spec'' (Marshal_IngressGroup inline_TypeMeta Marshal_ObjectMeta (test_group []))
     = Some (JObject [])"
    by simp
  have d: "Marshal_IngressGroup inline_TypeMeta Marshal_ObjectMeta (test_group [''svc1''])
     = JObject [(''kind'', JString ''IngressGroup''),
                (''apiVersion'', JString ''example.k8s.io/v1''),
                (''metadata'', JObject [(''name'', JString ''g1''), (''namespace'', JString ''default'')]),
                (''spec'', JObject [(''services'', JArray
                   [JObject [(''name'', JString ''svc1''), (''namespace'', JString ''default'')]])])]"
    using C6_wire_shape [of inline_TypeMeta Marshal_ObjectMeta "test_group [''svc1'']"] a
    by (simp add: Marshal_IngressGroup_def Marshal_ObjectMeta_def inline_TypeMeta_def
        test_group_def)
  from a b c d show ?thesis by simp
qed

subsection \<open>Process configuration\<close>



end
